theory Spec2Isabelle
  imports Complex_Main "HOL-Library.AList"
begin

section \<open>Records and values\<close>

text \<open>
  The converters of \<^verbatim>\<open>frictionless_ckan_mapper\<close> work on Python dictionaries that hold
  JSON-compatible values. A value is one of the six JSON kinds; a number is a Python
  \<^verbatim>\<open>int\<close> or a finite \<^verbatim>\<open>float\<close>, the latter represented by the rational it denotes.
  A dictionary is an association list in insertion order, as Python dictionaries
  are; \<open>AList.update\<close> overwrites in place or appends, as \<^verbatim>\<open>d[k] = v\<close> does,
  and \<open>AList.delete\<close> is \<^verbatim>\<open>del d[k]\<close>. Characters are code points below 256.
\<close>

datatype json =
    JNull
  | JBool bool
  | JInt int
  | JFloat rat
  | JStr string
  | JArr "json list"
  | JObj "(string \<times> json) list"

type_synonym pydict = "(string \<times> json) list"

text \<open>
  The exceptions the converters can raise. \<open>OutsideModel\<close> is not a Python
  exception: it marks the places where Python would carry on with a dictionary that
  has a key which is not a string (an extras entry whose \<^verbatim>\<open>key\<close> is a number, or
  \<^verbatim>\<open>dict(res)\<close> of a sequence of pairs), which no \<open>pydict\<close> represents.
\<close>

datatype error =
    KeyError
  | TypeError
  | AttributeError
  | IndexError
  | ValueError
  | JSONDecodeError
  | OutsideModel

definition bindE :: "error + 'a \<Rightarrow> ('a \<Rightarrow> error + 'b) \<Rightarrow> error + 'b" where
  "bindE m f = (case m of Inl e \<Rightarrow> Inl e | Inr x \<Rightarrow> f x)"

fun mapE :: "('a \<Rightarrow> error + 'b) \<Rightarrow> 'a list \<Rightarrow> error + 'b list" where
  "mapE f [] = Inr []"
| "mapE f (x # xs) =
     (case f x of
        Inl e \<Rightarrow> Inl e
      | Inr y \<Rightarrow> (case mapE f xs of Inl e \<Rightarrow> Inl e | Inr ys \<Rightarrow> Inr (y # ys)))"

subsection \<open>Python's operations on values\<close>

text \<open>\<^verbatim>\<open>key in d\<close>, \<^verbatim>\<open>d.get(key)\<close> and \<^verbatim>\<open>d.pop(key, None)\<close> on a dictionary.\<close>

definition has_key :: "pydict \<Rightarrow> string \<Rightarrow> bool" where
  "has_key d k = (map_of d k \<noteq> None)"

definition dict_get :: "pydict \<Rightarrow> string \<Rightarrow> json" where
  "dict_get d k = (case map_of d k of None \<Rightarrow> JNull | Some v \<Rightarrow> v)"

fun pop_keys :: "string list \<Rightarrow> pydict \<Rightarrow> pydict" where
  "pop_keys [] d = d"
| "pop_keys (k # ks) d = pop_keys ks (AList.delete k d)"

text \<open>Truth value of a value in a condition (\<^verbatim>\<open>if x:\<close>).\<close>

fun truthy :: "json \<Rightarrow> bool" where
  "truthy JNull = False"
| "truthy (JBool b) = b"
| "truthy (JInt i) = (i \<noteq> 0)"
| "truthy (JFloat r) = (r \<noteq> 0)"
| "truthy (JStr s) = (s \<noteq> [])"
| "truthy (JArr xs) = (xs \<noteq> [])"
| "truthy (JObj kvs) = (kvs \<noteq> [])"

text \<open>
  Python's \<^verbatim>\<open>==\<close> on values: numbers compare by value across \<^verbatim>\<open>bool\<close>, \<^verbatim>\<open>int\<close>
  and \<^verbatim>\<open>float\<close>, lists pointwise, dictionaries as mappings whatever the order.
\<close>

fun num_of :: "json \<Rightarrow> rat option" where
  "num_of (JBool b) = Some (if b then 1 else 0)"
| "num_of (JInt i) = Some (of_int i)"
| "num_of (JFloat r) = Some r"
| "num_of _ = None"

fun py_eq :: "json \<Rightarrow> json \<Rightarrow> bool"
  and py_eq_list :: "json list \<Rightarrow> json list \<Rightarrow> bool"
  and py_eq_items :: "(string \<times> json) list \<Rightarrow> (string \<times> json) list \<Rightarrow> bool" where
  "py_eq JNull b = (b = JNull)"
| "py_eq (JBool x) b = (num_of b = Some (if x then 1 else 0))"
| "py_eq (JInt i) b = (num_of b = Some (of_int i))"
| "py_eq (JFloat r) b = (num_of b = Some r)"
| "py_eq (JStr s) b = (b = JStr s)"
| "py_eq (JArr xs) b = (case b of JArr ys \<Rightarrow> py_eq_list xs ys | _ \<Rightarrow> False)"
| "py_eq (JObj kvs) b =
     (case b of
        JObj kws \<Rightarrow> length kvs = length kws \<and> py_eq_items kvs kws
      | _ \<Rightarrow> False)"
| "py_eq_list [] ys = (ys = [])"
| "py_eq_list (x # xs) ys =
     (case ys of [] \<Rightarrow> False | y # ys' \<Rightarrow> py_eq x y \<and> py_eq_list xs ys')"
| "py_eq_items [] kws = True"
| "py_eq_items (kv # kvs) kws =
     (case map_of kws (fst kv) of
        None \<Rightarrow> False
      | Some w \<Rightarrow> py_eq (snd kv) w \<and> py_eq_items kvs kws)"

text \<open>Iterating over a value (\<^verbatim>\<open>for x in v\<close>): a dictionary yields its keys, a string its characters.\<close>

fun iter_json :: "json \<Rightarrow> error + json list" where
  "iter_json (JArr xs) = Inr xs"
| "iter_json (JObj kvs) = Inr (map (\<lambda>kv. JStr (fst kv)) kvs)"
| "iter_json (JStr s) = Inr (map (\<lambda>c. JStr [c]) s)"
| "iter_json _ = Inl TypeError"

text \<open>\<^verbatim>\<open>v[key]\<close> with a string key: only a dictionary can be subscripted so.\<close>

fun getitem :: "json \<Rightarrow> string \<Rightarrow> error + json" where
  "getitem (JObj kvs) k = (case map_of kvs k of None \<Rightarrow> Inl KeyError | Some v \<Rightarrow> Inr v)"
| "getitem _ k = Inl TypeError"

text \<open>\<^verbatim>\<open>v[0]\<close>: a string-keyed dictionary has no key \<^verbatim>\<open>0\<close>.\<close>

fun getitem0 :: "json \<Rightarrow> error + json" where
  "getitem0 (JArr []) = Inl IndexError"
| "getitem0 (JArr (x # xs)) = Inr x"
| "getitem0 (JStr []) = Inl IndexError"
| "getitem0 (JStr (c # cs)) = Inr (JStr [c])"
| "getitem0 (JObj kvs) = Inl KeyError"
| "getitem0 _ = Inl TypeError"

text \<open>\<^verbatim>\<open>v.get(key)\<close>: only dictionaries have the method.\<close>

fun get_method :: "json \<Rightarrow> string \<Rightarrow> error + json" where
  "get_method (JObj kvs) k = Inr (dict_get kvs k)"
| "get_method _ k = Inl AttributeError"

fun len_json :: "json \<Rightarrow> error + nat" where
  "len_json (JArr xs) = Inr (length xs)"
| "len_json (JObj kvs) = Inr (length kvs)"
| "len_json (JStr s) = Inr (length s)"
| "len_json _ = Inl TypeError"

text \<open>\<^verbatim>\<open>key in v\<close> for a string \<^verbatim>\<open>key\<close>: membership in a dictionary's keys, in a list, or as a substring.\<close>

fun starts_with :: "string \<Rightarrow> string \<Rightarrow> bool" where
  "starts_with s [] = True"
| "starts_with [] (p # ps) = False"
| "starts_with (c # cs) (p # ps) = (c = p \<and> starts_with cs ps)"

fun substring_of :: "string \<Rightarrow> string \<Rightarrow> bool" where
  "substring_of p [] = (p = [])"
| "substring_of p (c # cs) = (starts_with (c # cs) p \<or> substring_of p cs)"

fun contains :: "json \<Rightarrow> string \<Rightarrow> error + bool" where
  "contains (JObj kvs) k = Inr (has_key kvs k)"
| "contains (JArr xs) k = Inr (list_ex (\<lambda>x. x = JStr k) xs)"
| "contains (JStr s) k = Inr (substring_of k s)"
| "contains _ k = Inl TypeError"

text \<open>
  \<^verbatim>\<open>str.strip()\<close> and \<^verbatim>\<open>str.lower()\<close>, on the code points below 256.
\<close>

definition is_space :: "char \<Rightarrow> bool" where
  "is_space c = (of_char c \<in> set [9, 10, 11, 12, 13, 28, 29, 30, 31, 32, 133, 160 :: nat])"

definition strip :: "string \<Rightarrow> string" where
  "strip s = rev (dropWhile is_space (rev (dropWhile is_space s)))"

definition lower_char :: "char \<Rightarrow> char" where
  "lower_char c =
     (let n = (of_char c :: nat)
      in if (65 \<le> n \<and> n \<le> 90) \<or> (192 \<le> n \<and> n \<le> 222 \<and> n \<noteq> 215)
         then char_of (n + 32) else c)"

definition lower :: "string \<Rightarrow> string" where
  "lower s = map lower_char s"

text \<open>
  \<^verbatim>\<open>dict(v)\<close>: a copy of a dictionary, the empty dictionary for an empty sequence.
  A non-empty string raises \<^verbatim>\<open>ValueError\<close> (its elements have length one); a
  non-empty list is accepted by Python only as a sequence of pairs.
\<close>

fun dict_of :: "json \<Rightarrow> error + pydict" where
  "dict_of (JObj kvs) = Inr kvs"
| "dict_of (JArr []) = Inr []"
| "dict_of (JArr (x # xs)) = Inl OutsideModel"
| "dict_of (JStr []) = Inr []"
| "dict_of (JStr (c # cs)) = Inl ValueError"
| "dict_of _ = Inl TypeError"

text \<open>Every key whose value is \<^verbatim>\<open>None\<close> is deleted.\<close>

definition strip_nulls :: "pydict \<Rightarrow> pydict" where
  "strip_nulls d = filter (\<lambda>kv. snd kv \<noteq> JNull) d"

section \<open>CKAN to Frictionless (\<^verbatim>\<open>ckan_to_frictionless.py\<close>)\<close>

text \<open>
  \<^verbatim>\<open>json.loads\<close> belongs to the standard library, not to the repository: the
  converters take it as the parameter \<open>loads\<close>, where \<open>None\<close> stands for
  \<^verbatim>\<open>JSONDecodeError\<close>. A parser that gives up for another reason (the recursion
  limit, on a text nested thousands of levels deep) is outside the model.
\<close>

definition resource_mapping :: "(string \<times> string) list" where
  "resource_mapping = [(''size'', ''bytes''), (''mimetype'', ''mediatype''), (''url'', ''path'')]"

definition resource_keys_to_remove :: "string list" where
  "resource_keys_to_remove = [''package_id'', ''position'', ''datastore_active'', ''state'']"

subsection \<open>\<^verbatim>\<open>resource\<close>\<close>

fun remove_keys :: "string list \<Rightarrow> pydict \<Rightarrow> pydict" where
  "remove_keys [] d = d"
| "remove_keys (k # ks) d = remove_keys ks (if has_key d k then AList.delete k d else d)"

definition unjsonify_value :: "(string \<Rightarrow> json option) \<Rightarrow> json \<Rightarrow> json" where
  "unjsonify_value loads v =
     (case v of
        JStr s \<Rightarrow>
          (let t = strip s
           in if starts_with t ''{'' \<or> starts_with t ''[''
              then (case loads t of Some p \<Rightarrow> p | None \<Rightarrow> v)
              else v)
      | _ \<Rightarrow> v)"

definition unjsonify :: "(string \<Rightarrow> json option) \<Rightarrow> pydict \<Rightarrow> pydict" where
  "unjsonify loads d = map (\<lambda>kv. (fst kv, unjsonify_value loads (snd kv))) d"

fun remap :: "(string \<times> string) list \<Rightarrow> pydict \<Rightarrow> pydict" where
  "remap [] d = d"
| "remap (kv # m) d =
     remap m (case map_of d (fst kv) of
                None \<Rightarrow> d
              | Some x \<Rightarrow> AList.delete (fst kv) (AList.update (snd kv) x d))"

definition resource :: "(string \<Rightarrow> json option) \<Rightarrow> pydict \<Rightarrow> pydict" where
  "resource loads ckandict =
     strip_nulls (remap resource_mapping
       (unjsonify loads (remove_keys resource_keys_to_remove ckandict)))"

subsection \<open>\<^verbatim>\<open>dataset\<close>\<close>

definition dataset_keys_to_remove :: "string list" where
  "dataset_keys_to_remove = [''state'']"

definition dataset_mapping :: "(string \<times> string) list" where
  "dataset_mapping = [(''notes'', ''description''), (''url'', ''homepage'')]"

text \<open>
  Lines 93 to 102: every extras entry becomes a top-level key. \<^verbatim>\<open>json.loads\<close> of
  something that is not a string raises \<^verbatim>\<open>TypeError\<close>, which is caught like a
  parse error. A list or dictionary as key is unhashable.
\<close>

definition try_loads :: "(string \<Rightarrow> json option) \<Rightarrow> json \<Rightarrow> json" where
  "try_loads loads v =
     (case v of
        JStr s \<Rightarrow> (case loads s of Some p \<Rightarrow> p | None \<Rightarrow> v)
      | _ \<Rightarrow> v)"

fun expand_extra :: "(string \<Rightarrow> json option) \<Rightarrow> json \<Rightarrow> pydict \<Rightarrow> error + pydict" where
  "expand_extra loads extra outdict =
     bindE (getitem extra ''key'') (\<lambda>key.
     bindE (getitem extra ''value'') (\<lambda>v.
       (case key of
          JStr k \<Rightarrow> Inr (AList.update k (try_loads loads v) outdict)
        | JArr xs \<Rightarrow> Inl TypeError
        | JObj kvs \<Rightarrow> Inl TypeError
        | _ \<Rightarrow> Inl OutsideModel)))"

fun expand_loop :: "(string \<Rightarrow> json option) \<Rightarrow> json list \<Rightarrow> pydict \<Rightarrow> error + pydict" where
  "expand_loop loads [] outdict = Inr outdict"
| "expand_loop loads (extra # rest) outdict =
     bindE (expand_extra loads extra outdict) (expand_loop loads rest)"

definition expand_extras :: "(string \<Rightarrow> json option) \<Rightarrow> pydict \<Rightarrow> pydict \<Rightarrow> error + pydict" where
  "expand_extras loads ckandict outdict =
     (case map_of ckandict ''extras'' of
        None \<Rightarrow> Inr outdict
      | Some ex \<Rightarrow>
          bindE (iter_json ex) (\<lambda>items.
          bindE (expand_loop loads items outdict) (\<lambda>out.
            Inr (AList.delete ''extras'' out))))"

text \<open>Lines 105 to 108: the rename looks the key up in the input, not in the copy.\<close>

fun map_keys :: "(string \<times> string) list \<Rightarrow> pydict \<Rightarrow> pydict \<Rightarrow> pydict" where
  "map_keys [] ckandict outdict = outdict"
| "map_keys (kv # m) ckandict outdict =
     map_keys m ckandict
       (case map_of ckandict (fst kv) of
          None \<Rightarrow> outdict
        | Some x \<Rightarrow> AList.delete (fst kv) (AList.update (snd kv) x outdict))"

text \<open>Lines 111 to 113.\<close>

definition convert_tags :: "pydict \<Rightarrow> pydict \<Rightarrow> error + pydict" where
  "convert_tags ckandict outdict =
     (case map_of ckandict ''tags'' of
        None \<Rightarrow> Inr outdict
      | Some ts \<Rightarrow>
          bindE (iter_json ts) (\<lambda>tags.
          bindE (mapE (\<lambda>tag. getitem tag ''name'') tags) (\<lambda>names.
            Inr (AList.delete ''tags'' (AList.update ''keywords'' (JArr names) outdict)))))"

text \<open>Lines 122 to 143.\<close>

definition contributor :: "pydict \<Rightarrow> string \<Rightarrow> string \<Rightarrow> json list" where
  "contributor outdict who mail =
     (if has_key outdict who \<and> truthy (dict_get outdict who)
      then [JObj ([(''title'', dict_get outdict who), (''role'', JStr who)] @
                  (if has_key outdict mail then [(''email'', dict_get outdict mail)] else []))]
      else [])"

definition contributors_step :: "pydict \<Rightarrow> pydict" where
  "contributors_step outdict =
     pop_keys [''author'', ''author_email'', ''maintainer'', ''maintainer_email'']
       (if \<not> (has_key outdict ''contributors'' \<and> truthy (dict_get outdict ''contributors'')) \<and>
           (has_key outdict ''author'' \<or> has_key outdict ''maintainer'')
        then AList.update ''contributors''
               (JArr (contributor outdict ''author'' ''author_email'' @
                      contributor outdict ''maintainer'' ''maintainer_email'')) outdict
        else outdict)"

text \<open>Lines 146 to 148.\<close>

definition resources_step :: "(string \<Rightarrow> json option) \<Rightarrow> pydict \<Rightarrow> error + pydict" where
  "resources_step loads outdict =
     (case map_of outdict ''resources'' of
        None \<Rightarrow> Inr outdict
      | Some rs \<Rightarrow>
          bindE (iter_json rs) (\<lambda>ress.
          bindE (mapE (\<lambda>res. bindE (dict_of res) (\<lambda>d. Inr (JObj (resource loads d)))) ress)
            (\<lambda>conv. Inr (AList.update ''resources'' (JArr conv) outdict))))"

text \<open>Lines 157 to 169.\<close>

definition license_field :: "pydict \<Rightarrow> string \<Rightarrow> string \<Rightarrow> pydict" where
  "license_field outdict src dst =
     (case map_of outdict src of None \<Rightarrow> [] | Some v \<Rightarrow> [(dst, v)])"

definition license_step :: "pydict \<Rightarrow> pydict" where
  "license_step outdict =
     pop_keys [''license_id'', ''license_title'', ''license_url'']
       (if has_key outdict ''license_id'' \<or> has_key outdict ''license_title'' \<or>
           has_key outdict ''license_url''
        then AList.update ''licenses''
               (JArr [JObj (license_field outdict ''license_id'' ''name'' @
                            license_field outdict ''license_title'' ''title'' @
                            license_field outdict ''license_url'' ''path'')]) outdict
        else outdict)"

text \<open>
  Lines 173 to 184: the first extras entry with some value equal to
  \<^verbatim>\<open>'licenses'\<close> is taken; its \<^verbatim>\<open>value\<close> goes through \<^verbatim>\<open>json.loads\<close> outside any
  \<^verbatim>\<open>try\<close>, and the result must have the method \<^verbatim>\<open>get\<close>.
\<close>

fun find_licenses :: "(string \<Rightarrow> json option) \<Rightarrow> json list \<Rightarrow> error + json option" where
  "find_licenses loads [] = Inr None"
| "find_licenses loads (item # rest) =
     (case item of
        JObj kvs \<Rightarrow>
          (if list_ex (\<lambda>kv. snd kv = JStr ''licenses'') kvs
           then (case dict_get kvs ''value'' of
                   JStr s \<Rightarrow>
                     (case loads s of
                        None \<Rightarrow> Inl JSONDecodeError
                      | Some parsed \<Rightarrow>
                          bindE (get_method parsed ''licenses'') (\<lambda>l. Inr (Some l)))
                 | _ \<Rightarrow> Inl TypeError)
           else find_licenses loads rest)
      | _ \<Rightarrow> Inl AttributeError)"

text \<open>Lines 186 to 195.\<close>

definition license_part :: "json \<Rightarrow> string \<Rightarrow> error + pydict" where
  "license_part license k =
     bindE (contains license k) (\<lambda>b.
       if b then bindE (getitem license k) (\<lambda>v. Inr [(k, v)]) else Inr [])"

definition normalise_license :: "json \<Rightarrow> error + json" where
  "normalise_license license =
     bindE (license_part license ''name'') (\<lambda>n.
     bindE (license_part license ''title'') (\<lambda>t.
     bindE (license_part license ''path'') (\<lambda>p.
       Inr (JObj (n @ t @ p)))))"

definition add_license :: "json \<Rightarrow> pydict \<Rightarrow> error + pydict" where
  "add_license license_out outdict =
     (case map_of outdict ''licenses'' of
        None \<Rightarrow> Inl KeyError
      | Some (JArr ls) \<Rightarrow>
          Inr (if list_ex (py_eq license_out) ls then outdict
               else AList.update ''licenses'' (JArr (ls @ [license_out])) outdict)
      | Some _ \<Rightarrow> Inl TypeError)"

fun add_licenses :: "json list \<Rightarrow> pydict \<Rightarrow> error + pydict" where
  "add_licenses [] outdict = Inr outdict"
| "add_licenses (license # rest) outdict =
     bindE (normalise_license license) (\<lambda>license_out.
     bindE (add_license license_out outdict) (add_licenses rest))"

definition extras_licenses :: "(string \<Rightarrow> json option) \<Rightarrow> pydict \<Rightarrow> pydict \<Rightarrow> error + pydict" where
  "extras_licenses loads ckandict outdict =
     (if truthy (dict_get ckandict ''extras'')
      then bindE (iter_json (dict_get ckandict ''extras'')) (\<lambda>items.
           bindE (find_licenses loads items) (\<lambda>found.
             (case found of
                None \<Rightarrow> Inr outdict
              | Some licenses_list \<Rightarrow>
                  bindE (iter_json licenses_list) (\<lambda>ls. add_licenses ls outdict))))
      else Inr outdict)"

text \<open>The dictionary as it stands at line 121, before the contributors are built.\<close>

definition before_contributors :: "(string \<Rightarrow> json option) \<Rightarrow> pydict \<Rightarrow> error + pydict" where
  "before_contributors loads ckandict =
     bindE (expand_extras loads ckandict ckandict) (\<lambda>o1.
       convert_tags ckandict (map_keys dataset_mapping ckandict o1))"

definition dataset :: "(string \<Rightarrow> json option) \<Rightarrow> pydict \<Rightarrow> error + pydict" where
  "dataset loads ckandict =
     bindE (before_contributors loads ckandict) (\<lambda>o3.
     bindE (resources_step loads (contributors_step o3)) (\<lambda>o6.
     bindE (extras_licenses loads ckandict (license_step o6)) (\<lambda>o8.
       Inr (strip_nulls (pop_keys dataset_keys_to_remove o8)))))"

section \<open>Frictionless to CKAN (\<^verbatim>\<open>frictionless_to_ckan.py\<close>)\<close>

text \<open>
  \<^verbatim>\<open>slugify.slugify\<close> is a third-party function: \<open>package\<close> takes it as the
  parameter \<open>slugify\<close>. It raises \<^verbatim>\<open>TypeError\<close> on anything but a string.
\<close>

definition package_mapping :: "(string \<times> string) list" where
  "package_mapping = [(''description'', ''notes''), (''homepage'', ''url'')]"

definition ckan_package_keys :: "string list" where
  "ckan_package_keys =
     [''author'', ''author_email'', ''groups'', ''license_id'', ''maintainer'',
      ''maintainer_email'', ''name'', ''notes'', ''owner_org'', ''private'',
      ''relationships_as_object'', ''relationships_as_subject'', ''resources'', ''state'',
      ''tags'', ''title'', ''type'', ''url'', ''version'']"

text \<open>
  \<^verbatim>\<open>if not outdict.get('extras'): outdict['extras'] = []\<close> followed by
  \<^verbatim>\<open>outdict['extras'].append(item)\<close>: a truthy value that is not a list has no
  \<^verbatim>\<open>append\<close>.
\<close>

definition ensure_extras :: "pydict \<Rightarrow> pydict" where
  "ensure_extras outdict =
     (if \<not> truthy (dict_get outdict ''extras'')
      then AList.update ''extras'' (JArr []) outdict else outdict)"

definition append_extras :: "json \<Rightarrow> pydict \<Rightarrow> error + pydict" where
  "append_extras item outdict =
     (case dict_get outdict ''extras'' of
        JArr xs \<Rightarrow> Inr (AList.update ''extras'' (JArr (xs @ [item])) outdict)
      | _ \<Rightarrow> Inl AttributeError)"

text \<open>Lines 78 to 86.\<close>

definition set_if_truthy :: "string \<Rightarrow> json \<Rightarrow> pydict \<Rightarrow> pydict" where
  "set_if_truthy k v outdict = (if truthy v then AList.update k v outdict else outdict)"

definition collapse_licenses :: "pydict \<Rightarrow> error + pydict" where
  "collapse_licenses outdict =
     (let licenses = dict_get outdict ''licenses''
      in if truthy licenses
         then bindE (getitem0 licenses) (\<lambda>first.
              bindE (getitem first ''type'') (\<lambda>ty.
              bindE (get_method first ''title'') (\<lambda>title.
              bindE (len_json licenses) (\<lambda>n.
              bindE (if 1 < n
                     then append_extras (JObj [(''licenses'', licenses)])
                            (ensure_extras
                               (set_if_truthy ''license_title'' title
                                  (AList.update ''license_id'' ty outdict)))
                     else Inr (set_if_truthy ''license_title'' title
                                 (AList.update ''license_id'' ty outdict)))
                (\<lambda>out. Inr (AList.delete ''licenses'' out))))))
         else Inr outdict)"

text \<open>Lines 88 to 98.\<close>

definition collapse_sources :: "pydict \<Rightarrow> error + pydict" where
  "collapse_sources outdict =
     (let sources = dict_get outdict ''sources''
      in if truthy sources
         then bindE (getitem0 sources) (\<lambda>first.
              bindE (getitem first ''title'') (\<lambda>title.
              bindE (get_method first ''email'') (\<lambda>email.
              bindE (get_method first ''path'') (\<lambda>path.
              bindE (len_json sources) (\<lambda>n.
              bindE (if 1 < n
                     then append_extras (JObj [(''sources'', sources)])
                            (ensure_extras
                               (set_if_truthy ''url'' path
                                  (set_if_truthy ''author_email'' email
                                     (AList.update ''author'' title outdict))))
                     else Inr (set_if_truthy ''url'' path
                                 (set_if_truthy ''author_email'' email
                                    (AList.update ''author'' title outdict))))
                (\<lambda>out. Inr (AList.delete ''sources'' out)))))))
         else Inr outdict)"

text \<open>
  Lines 100 to 120. In the loop over the keys of the single contributor, the
  \<^verbatim>\<open>append\<close> and the \<^verbatim>\<open>break\<close> stand inside \<^verbatim>\<open>if not outdict.get('extras')\<close>.
\<close>

fun contributor_keys_loop :: "string list \<Rightarrow> json \<Rightarrow> pydict \<Rightarrow> error + pydict" where
  "contributor_keys_loop [] contributors outdict = Inr outdict"
| "contributor_keys_loop (key # keys) contributors outdict =
     (if key \<in> set [''path'', ''organisation'', ''role'']
      then (if \<not> truthy (dict_get outdict ''extras'')
            then append_extras (JObj [(''contributors'', contributors)])
                   (AList.update ''extras'' (JArr []) outdict)
            else contributor_keys_loop keys contributors outdict)
      else contributor_keys_loop keys contributors outdict)"

fun keys_method :: "json \<Rightarrow> error + string list" where
  "keys_method (JObj kvs) = Inr (map fst kvs)"
| "keys_method _ = Inl AttributeError"

definition collapse_contributors :: "pydict \<Rightarrow> error + pydict" where
  "collapse_contributors outdict =
     (let contributors = dict_get outdict ''contributors''
      in if truthy contributors
         then bindE (getitem0 contributors) (\<lambda>first.
              bindE (getitem first ''title'') (\<lambda>title.
              bindE (get_method first ''email'') (\<lambda>email.
              bindE (len_json contributors) (\<lambda>n.
              bindE (if 1 < n
                     then append_extras (JObj [(''contributors'', contributors)])
                            (ensure_extras
                               (set_if_truthy ''maintainer_email'' email
                                  (AList.update ''maintainer'' title outdict)))
                     else bindE (keys_method first) (\<lambda>keys.
                            contributor_keys_loop keys contributors
                              (set_if_truthy ''maintainer_email'' email
                                 (AList.update ''maintainer'' title outdict))))
                (\<lambda>out. Inr (AList.delete ''contributors'' out))))))
         else Inr outdict)"

text \<open>Lines 122 to 127.\<close>

definition make_tag :: "(string \<Rightarrow> string) \<Rightarrow> json \<Rightarrow> error + json" where
  "make_tag slugify keyword =
     (case keyword of
        JStr s \<Rightarrow> Inr (JObj [(''name'', JStr (lower (slugify s)))])
      | _ \<Rightarrow> Inl TypeError)"

definition convert_keywords :: "(string \<Rightarrow> string) \<Rightarrow> pydict \<Rightarrow> error + pydict" where
  "convert_keywords slugify outdict =
     (let keywords = dict_get outdict ''keywords''
      in if truthy keywords
         then bindE (iter_json keywords) (\<lambda>ks.
              bindE (mapE (make_tag slugify) ks) (\<lambda>tags.
                Inr (AList.delete ''keywords'' (AList.update ''tags'' (JArr tags) outdict))))
         else Inr outdict)"

definition package :: "(string \<Rightarrow> string) \<Rightarrow> pydict \<Rightarrow> error + pydict" where
  "package slugify fddict =
     bindE (collapse_licenses (map_keys package_mapping fddict fddict)) (\<lambda>o1.
     bindE (collapse_sources o1) (\<lambda>o2.
     bindE (collapse_contributors o2) (\<lambda>o3.
       convert_keywords slugify o3)))"

section \<open>The store: \<^verbatim>\<open>package\<close> on shared objects\<close>

text \<open>
  \<^verbatim>\<open>outdict = dict(fddict)\<close> is a shallow copy: the new dictionary refers to the same
  list and dictionary objects as the input, and \<^verbatim>\<open>outdict['extras'].append(...)\<close>
  changes the list object it finds there. Whether the caller's record is changed
  depends on that sharing, which the value model above cannot express. Here the
  objects live in a store: an address is an index into the list of objects, a value
  is a scalar or a reference, and \<open>package_h\<close> follows
  \<^verbatim>\<open>FrictionlessToCKAN.package\<close> statement by statement on the store. A run
  that raises returns the exception alone.
\<close>

datatype hval =
    HNull
  | HBool bool
  | HInt int
  | HFloat rat
  | HStr string
  | HRef nat

datatype hobj =
    HList "hval list"
  | HDict "(string \<times> hval) list"

type_synonym heap = "hobj list"

definition h_alloc :: "hobj \<Rightarrow> heap \<Rightarrow> nat \<times> heap" where
  "h_alloc ob h = (length h, h @ [ob])"

fun h_dict :: "heap \<Rightarrow> hval \<Rightarrow> (string \<times> hval) list option" where
  "h_dict h (HRef a) =
     (if a < length h then (case h ! a of HDict kvs \<Rightarrow> Some kvs | HList xs \<Rightarrow> None) else None)"
| "h_dict h _ = None"

fun h_list :: "heap \<Rightarrow> hval \<Rightarrow> hval list option" where
  "h_list h (HRef a) =
     (if a < length h then (case h ! a of HList xs \<Rightarrow> Some xs | HDict kvs \<Rightarrow> None) else None)"
| "h_list h _ = None"

fun h_truthy :: "heap \<Rightarrow> hval \<Rightarrow> bool" where
  "h_truthy h HNull = False"
| "h_truthy h (HBool b) = b"
| "h_truthy h (HInt i) = (i \<noteq> 0)"
| "h_truthy h (HFloat r) = (r \<noteq> 0)"
| "h_truthy h (HStr s) = (s \<noteq> [])"
| "h_truthy h (HRef a) =
     (if a < length h
      then (case h ! a of HList xs \<Rightarrow> xs \<noteq> [] | HDict kvs \<Rightarrow> kvs \<noteq> [])
      else False)"

fun h_getitem0 :: "heap \<Rightarrow> hval \<Rightarrow> error + hval" where
  "h_getitem0 h (HRef a) =
     (if a < length h
      then (case h ! a of
              HList [] \<Rightarrow> Inl IndexError
            | HList (x # xs) \<Rightarrow> Inr x
            | HDict kvs \<Rightarrow> Inl KeyError)
      else Inl OutsideModel)"
| "h_getitem0 h (HStr []) = Inl IndexError"
| "h_getitem0 h (HStr (c # cs)) = Inr (HStr [c])"
| "h_getitem0 h _ = Inl TypeError"

definition h_getitem :: "heap \<Rightarrow> hval \<Rightarrow> string \<Rightarrow> error + hval" where
  "h_getitem h v k =
     (case h_dict h v of
        None \<Rightarrow> Inl TypeError
      | Some kvs \<Rightarrow> (case map_of kvs k of None \<Rightarrow> Inl KeyError | Some x \<Rightarrow> Inr x))"

definition h_get_method :: "heap \<Rightarrow> hval \<Rightarrow> string \<Rightarrow> error + hval" where
  "h_get_method h v k =
     (case h_dict h v of
        None \<Rightarrow> Inl AttributeError
      | Some kvs \<Rightarrow> Inr (case map_of kvs k of None \<Rightarrow> HNull | Some x \<Rightarrow> x))"

fun h_len :: "heap \<Rightarrow> hval \<Rightarrow> error + nat" where
  "h_len h (HRef a) =
     (if a < length h
      then (case h ! a of HList xs \<Rightarrow> Inr (length xs) | HDict kvs \<Rightarrow> Inr (length kvs))
      else Inl OutsideModel)"
| "h_len h (HStr s) = Inr (length s)"
| "h_len h _ = Inl TypeError"

definition h_keys :: "heap \<Rightarrow> hval \<Rightarrow> error + string list" where
  "h_keys h v = (case h_dict h v of None \<Rightarrow> Inl AttributeError | Some kvs \<Rightarrow> Inr (map fst kvs))"

fun h_iter :: "heap \<Rightarrow> hval \<Rightarrow> error + hval list" where
  "h_iter h (HRef a) =
     (if a < length h
      then (case h ! a of
              HList xs \<Rightarrow> Inr xs
            | HDict kvs \<Rightarrow> Inr (map (\<lambda>kv. HStr (fst kv)) kvs))
      else Inl OutsideModel)"
| "h_iter h (HStr s) = Inr (map (\<lambda>c. HStr [c]) s)"
| "h_iter h _ = Inl TypeError"

text \<open>\<^verbatim>\<open>outdict.get(k)\<close>, \<^verbatim>\<open>outdict[k] = v\<close> and \<^verbatim>\<open>del outdict[k]\<close>, with \<^verbatim>\<open>outdict\<close> at the address \<open>out\<close>.\<close>

definition od_get :: "heap \<Rightarrow> nat \<Rightarrow> string \<Rightarrow> hval" where
  "od_get h out k =
     (case h_dict h (HRef out) of
        None \<Rightarrow> HNull
      | Some kvs \<Rightarrow> (case map_of kvs k of None \<Rightarrow> HNull | Some v \<Rightarrow> v))"

definition od_set :: "nat \<Rightarrow> string \<Rightarrow> hval \<Rightarrow> heap \<Rightarrow> heap" where
  "od_set out k v h =
     (case h_dict h (HRef out) of
        None \<Rightarrow> h
      | Some kvs \<Rightarrow> h[out := HDict (AList.update k v kvs)])"

definition od_del :: "nat \<Rightarrow> string \<Rightarrow> heap \<Rightarrow> heap" where
  "od_del out k h =
     (case h_dict h (HRef out) of
        None \<Rightarrow> h
      | Some kvs \<Rightarrow> h[out := HDict (AList.delete k kvs)])"

text \<open>Lines 73 to 76; \<open>fddict\<close> is the content of the input dictionary, which no statement changes.\<close>

fun h_map_keys :: "(string \<times> string) list \<Rightarrow> (string \<times> hval) list \<Rightarrow> nat \<Rightarrow> heap \<Rightarrow> heap" where
  "h_map_keys [] fddict out h = h"
| "h_map_keys (kv # m) fddict out h =
     h_map_keys m fddict out
       (case map_of fddict (fst kv) of
          None \<Rightarrow> h
        | Some x \<Rightarrow> od_del out (fst kv) (od_set out (snd kv) x h))"

text \<open>
  \<^verbatim>\<open>if not outdict.get('extras'): outdict['extras'] = []\<close> allocates a new list;
  \<^verbatim>\<open>outdict['extras'].append({k: v})\<close> allocates the entry and changes, in place, the
  list object that \<^verbatim>\<open>outdict['extras']\<close> refers to.
\<close>

definition h_ensure_extras :: "nat \<Rightarrow> heap \<Rightarrow> heap" where
  "h_ensure_extras out h =
     (if \<not> h_truthy h (od_get h out ''extras'')
      then od_set out ''extras'' (HRef (fst (h_alloc (HList []) h))) (snd (h_alloc (HList []) h))
      else h)"

definition h_append :: "hval \<Rightarrow> hval \<Rightarrow> heap \<Rightarrow> error + heap" where
  "h_append target item h =
     (case target of
        HRef a \<Rightarrow>
          (case h_list h target of
             None \<Rightarrow> Inl AttributeError
           | Some xs \<Rightarrow> Inr (h[a := HList (xs @ [item])]))
      | _ \<Rightarrow> Inl AttributeError)"

definition h_archive :: "string \<Rightarrow> hval \<Rightarrow> nat \<Rightarrow> heap \<Rightarrow> error + heap" where
  "h_archive k v out h =
     h_append (od_get h out ''extras'') (HRef (fst (h_alloc (HDict [(k, v)]) h)))
       (snd (h_alloc (HDict [(k, v)]) h))"

definition h_set_if_truthy :: "string \<Rightarrow> hval \<Rightarrow> nat \<Rightarrow> heap \<Rightarrow> heap" where
  "h_set_if_truthy k v out h = (if h_truthy h v then od_set out k v h else h)"

text \<open>Lines 78 to 86.\<close>

definition h_collapse_licenses :: "nat \<Rightarrow> heap \<Rightarrow> error + heap" where
  "h_collapse_licenses out h =
     (let licenses = od_get h out ''licenses''
      in if h_truthy h licenses
         then bindE (h_getitem0 h licenses) (\<lambda>first.
              bindE (h_getitem h first ''type'') (\<lambda>ty.
              bindE (h_get_method h first ''title'') (\<lambda>title.
              bindE (h_len h licenses) (\<lambda>n.
              bindE (if 1 < n
                     then h_archive ''licenses'' licenses out
                            (h_ensure_extras out
                               (h_set_if_truthy ''license_title'' title out
                                  (od_set out ''license_id'' ty h)))
                     else Inr (h_set_if_truthy ''license_title'' title out
                                 (od_set out ''license_id'' ty h)))
                (\<lambda>h'. Inr (od_del out ''licenses'' h'))))))
         else Inr h)"

text \<open>Lines 88 to 98.\<close>

definition h_collapse_sources :: "nat \<Rightarrow> heap \<Rightarrow> error + heap" where
  "h_collapse_sources out h =
     (let sources = od_get h out ''sources''
      in if h_truthy h sources
         then bindE (h_getitem0 h sources) (\<lambda>first.
              bindE (h_getitem h first ''title'') (\<lambda>title.
              bindE (h_get_method h first ''email'') (\<lambda>email.
              bindE (h_get_method h first ''path'') (\<lambda>path.
              bindE (h_len h sources) (\<lambda>n.
              bindE (if 1 < n
                     then h_archive ''sources'' sources out
                            (h_ensure_extras out
                               (h_set_if_truthy ''url'' path out
                                  (h_set_if_truthy ''author_email'' email out
                                     (od_set out ''author'' title h))))
                     else Inr (h_set_if_truthy ''url'' path out
                                 (h_set_if_truthy ''author_email'' email out
                                    (od_set out ''author'' title h))))
                (\<lambda>h'. Inr (od_del out ''sources'' h')))))))
         else Inr h)"

text \<open>Lines 100 to 120.\<close>

fun h_contributor_keys_loop :: "string list \<Rightarrow> hval \<Rightarrow> nat \<Rightarrow> heap \<Rightarrow> error + heap" where
  "h_contributor_keys_loop [] contributors out h = Inr h"
| "h_contributor_keys_loop (key # keys) contributors out h =
     (if key \<in> set [''path'', ''organisation'', ''role'']
      then (if \<not> h_truthy h (od_get h out ''extras'')
            then h_archive ''contributors'' contributors out
                   (od_set out ''extras'' (HRef (fst (h_alloc (HList []) h)))
                      (snd (h_alloc (HList []) h)))
            else h_contributor_keys_loop keys contributors out h)
      else h_contributor_keys_loop keys contributors out h)"

definition h_collapse_contributors :: "nat \<Rightarrow> heap \<Rightarrow> error + heap" where
  "h_collapse_contributors out h =
     (let contributors = od_get h out ''contributors''
      in if h_truthy h contributors
         then bindE (h_getitem0 h contributors) (\<lambda>first.
              bindE (h_getitem h first ''title'') (\<lambda>title.
              bindE (h_get_method h first ''email'') (\<lambda>email.
              bindE (h_len h contributors) (\<lambda>n.
              bindE (if 1 < n
                     then h_archive ''contributors'' contributors out
                            (h_ensure_extras out
                               (h_set_if_truthy ''maintainer_email'' email out
                                  (od_set out ''maintainer'' title h)))
                     else bindE (h_keys h first) (\<lambda>keys.
                            h_contributor_keys_loop keys contributors out
                              (h_set_if_truthy ''maintainer_email'' email out
                                 (od_set out ''maintainer'' title h))))
                (\<lambda>h'. Inr (od_del out ''contributors'' h'))))))
         else Inr h)"

text \<open>Lines 122 to 127: a new dictionary for every keyword, and a new list of them.\<close>

fun h_make_tags :: "(string \<Rightarrow> string) \<Rightarrow> hval list \<Rightarrow> heap \<Rightarrow> error + (hval list \<times> heap)" where
  "h_make_tags slugify [] h = Inr ([], h)"
| "h_make_tags slugify (keyword # rest) h =
     (case keyword of
        HStr s \<Rightarrow>
          bindE (h_make_tags slugify rest
                   (snd (h_alloc (HDict [(''name'', HStr (lower (slugify s)))]) h)))
            (\<lambda>r. Inr (HRef (fst (h_alloc (HDict [(''name'', HStr (lower (slugify s)))]) h))
                         # fst r, snd r))
      | _ \<Rightarrow> Inl TypeError)"

definition h_convert_keywords :: "(string \<Rightarrow> string) \<Rightarrow> nat \<Rightarrow> heap \<Rightarrow> error + heap" where
  "h_convert_keywords slugify out h =
     (let keywords = od_get h out ''keywords''
      in if h_truthy h keywords
         then bindE (h_iter h keywords) (\<lambda>ks.
              bindE (h_make_tags slugify ks h) (\<lambda>r.
                Inr (od_del out ''keywords''
                       (od_set out ''tags'' (HRef (fst (h_alloc (HList (fst r)) (snd r))))
                          (snd (h_alloc (HList (fst r)) (snd r)))))))
         else Inr h)"

text \<open>
  \<open>package_h slugify fddict h\<close>: the call \<^verbatim>\<open>package(fddict)\<close> with the argument at
  the address \<open>fddict\<close> of the store \<open>h\<close>; it returns the address of the new
  dictionary and the store after the call.
\<close>

definition package_h :: "(string \<Rightarrow> string) \<Rightarrow> nat \<Rightarrow> heap \<Rightarrow> error + (nat \<times> heap)" where
  "package_h slugify fddict h =
     (case h_dict h (HRef fddict) of
        None \<Rightarrow> Inl TypeError
      | Some kvs \<Rightarrow>
          bindE (h_collapse_licenses (fst (h_alloc (HDict kvs) h))
                   (h_map_keys package_mapping kvs (fst (h_alloc (HDict kvs) h))
                      (snd (h_alloc (HDict kvs) h)))) (\<lambda>h1.
          bindE (h_collapse_sources (fst (h_alloc (HDict kvs) h)) h1) (\<lambda>h2.
          bindE (h_collapse_contributors (fst (h_alloc (HDict kvs) h)) h2) (\<lambda>h3.
          bindE (h_convert_keywords slugify (fst (h_alloc (HDict kvs) h)) h3) (\<lambda>h4.
            Inr (fst (h_alloc (HDict kvs) h), h4))))))"

text \<open>
  The value that a store holds at a reference, read as a \<open>json\<close> value down to the
  given depth (a store may be cyclic).
\<close>

fun readback :: "nat \<Rightarrow> heap \<Rightarrow> hval \<Rightarrow> json" where
  "readback n h HNull = JNull"
| "readback n h (HBool b) = JBool b"
| "readback n h (HInt i) = JInt i"
| "readback n h (HFloat r) = JFloat r"
| "readback n h (HStr s) = JStr s"
| "readback 0 h (HRef a) = JNull"
| "readback (Suc n) h (HRef a) =
     (if a < length h
      then (case h ! a of
              HList xs \<Rightarrow> JArr (map (readback n h) xs)
            | HDict kvs \<Rightarrow> JObj (map (\<lambda>kv. (fst kv, readback n h (snd kv))) kvs))
      else JNull)"

section \<open>Sample collaborators for the examples\<close>

text \<open>
  The theorems below hold for every \<open>loads\<close> and every \<open>slugify\<close>. An
  example needs closed terms, so the examples fix the two library functions on the
  texts they use: \<open>sample_loads\<close> parses the JSON texts \<^verbatim>\<open>[1]\<close> and \<^verbatim>\<open>{}\<close>;
  the other texts that reach it in an example (\<^verbatim>\<open>{bad\<close>, \<^verbatim>\<open>hello\<close>, \<^verbatim>\<open>v\<close>) are
  not JSON, and it rejects them as \<^verbatim>\<open>json.loads\<close> does. \<open>sample_slugify\<close> turns
  spaces into hyphens; no example has keywords, so none calls it.
\<close>

definition sample_loads :: "string \<Rightarrow> json option" where
  "sample_loads s =
     (if s = ''[1]'' then Some (JArr [JInt 1])
      else if s = ''{}'' then Some (JObj [])
      else None)"

definition sample_slugify :: "string \<Rightarrow> string" where
  "sample_slugify s = map (\<lambda>c. if c = CHR '' '' then CHR ''-'' else c) s"

section \<open>Properties\<close>

subsection \<open>Lookup after each step\<close>

lemma bindE_Inr: "bindE m f = Inr y \<longleftrightarrow> (\<exists>x. m = Inr x \<and> f x = Inr y)"
  by (cases m) (simp_all add: bindE_def)

lemma truthy_has_key: "truthy (dict_get d k) \<Longrightarrow> has_key d k"
  by (auto simp: dict_get_def has_key_def split: option.splits)

lemma map_of_strip_nulls_Some:
  "map_of d k = Some v \<Longrightarrow> v \<noteq> JNull \<Longrightarrow> map_of (strip_nulls d) k = Some v"
  by (induction d) (auto simp: strip_nulls_def)

lemma map_of_strip_nulls_None:
  "map_of d k = None \<Longrightarrow> map_of (strip_nulls d) k = None"
  by (induction d) (auto simp: strip_nulls_def split: if_splits)


lemma map_of_pop_keys: "map_of (pop_keys ks d) k = (if k \<in> set ks then None else map_of d k)"
  by (induction ks arbitrary: d) (auto simp: delete_conv')

lemma resources_step_frame:
  "resources_step loads d = Inr d' \<Longrightarrow> k \<noteq> ''resources'' \<Longrightarrow> map_of d' k = map_of d k"
  by (auto simp: resources_step_def bindE_Inr update_conv' split: option.splits)

lemma license_step_frame:
  "k \<notin> {''licenses'', ''license_id'', ''license_title'', ''license_url''} \<Longrightarrow>
   map_of (license_step d) k = map_of d k"
  by (simp add: license_step_def map_of_pop_keys update_conv' del: pop_keys.simps)

lemma add_license_frame:
  "add_license l d = Inr d' \<Longrightarrow> k \<noteq> ''licenses'' \<Longrightarrow> map_of d' k = map_of d k"
  by (auto simp: add_license_def update_conv' split: option.splits json.splits if_splits)

lemma add_licenses_frame:
  "add_licenses ls d = Inr d' \<Longrightarrow> k \<noteq> ''licenses'' \<Longrightarrow> map_of d' k = map_of d k"
proof (induction ls arbitrary: d)
  case Nil
  then show ?case by simp
next
  case (Cons l ls)
  then show ?case by (auto simp: bindE_Inr dest: add_license_frame)
qed

lemma extras_licenses_frame:
  "extras_licenses loads c d = Inr d' \<Longrightarrow> k \<noteq> ''licenses'' \<Longrightarrow> map_of d' k = map_of d k"
  by (auto simp: extras_licenses_def bindE_Inr split: if_splits option.splits
           dest: add_licenses_frame)

lemma convert_tags_frame:
  "convert_tags c d = Inr d' \<Longrightarrow> k \<notin> {''tags'', ''keywords''} \<Longrightarrow> map_of d' k = map_of d k"
  by (auto simp: convert_tags_def bindE_Inr update_conv' delete_conv' split: option.splits)

lemma contributors_step_frame:
  "k \<notin> {''contributors'', ''author'', ''author_email'', ''maintainer'', ''maintainer_email''} \<Longrightarrow>
   map_of (contributors_step d) k = map_of d k"
  by (simp add: contributors_step_def map_of_pop_keys update_conv' del: pop_keys.simps)

lemma contributors_step_popped:
  "k \<in> {''author'', ''author_email'', ''maintainer'', ''maintainer_email''} \<Longrightarrow>
   map_of (contributors_step d) k = None"
  by (auto simp: contributors_step_def map_of_pop_keys simp del: pop_keys.simps)

lemma contributors_step_contributors:
  assumes "\<not> truthy (dict_get d ''contributors'')"
    and "has_key d ''author'' \<or> has_key d ''maintainer''"
  shows "map_of (contributors_step d) ''contributors'' =
           Some (JArr (contributor d ''author'' ''author_email'' @
                       contributor d ''maintainer'' ''maintainer_email''))"
  using assms by (simp add: contributors_step_def map_of_pop_keys update_conv' del: pop_keys.simps)

text \<open>
  What \<open>dataset\<close> does after line 121 to a key that the resource and license steps
  leave alone: the contributors step, the removal of \<^verbatim>\<open>state\<close>, the removal of nulls.
\<close>

lemma dataset_tail:
  assumes "dataset loads d = Inr out"
  obtains o3 o8 where "before_contributors loads d = Inr o3"
    and "out = strip_nulls (pop_keys dataset_keys_to_remove o8)"
    and "\<And>k. k \<notin> {''resources'', ''licenses'', ''license_id'', ''license_title'', ''license_url''}
            \<Longrightarrow> map_of o8 k = map_of (contributors_step o3) k"
proof -
  from assms obtain o3 o6 o8 where
    a: "before_contributors loads d = Inr o3"
    and b: "resources_step loads (contributors_step o3) = Inr o6"
    and c: "extras_licenses loads d (license_step o6) = Inr o8"
    and e: "out = strip_nulls (pop_keys dataset_keys_to_remove o8)"
    by (auto simp: dataset_def bindE_Inr)
  have "map_of o8 k = map_of (contributors_step o3) k"
    if "k \<notin> {''resources'', ''licenses'', ''license_id'', ''license_title'', ''license_url''}" for k
  proof -
    have "map_of o8 k = map_of (license_step o6) k"
      using c that by (auto dest: extras_licenses_frame)
    also have "\<dots> = map_of o6 k" using that by (simp add: license_step_frame)
    also have "\<dots> = map_of (contributors_step o3) k"
      using b that by (auto dest: resources_step_frame)
    finally show ?thesis .
  qed
  with a e show ?thesis using that by blast
qed

lemma dataset_passes:
  assumes "dataset loads d = Inr out" and "expand_extras loads d d = Inr e"
    and "x \<notin> {''tags'', ''keywords'', ''contributors'', ''author'', ''author_email'',
                ''maintainer'', ''maintainer_email'', ''resources'', ''licenses'',
                ''license_id'', ''license_title'', ''license_url'', ''state''}"
  shows "(map_of (map_keys dataset_mapping d e) x = Some v \<and> v \<noteq> JNull \<longrightarrow> map_of out x = Some v) \<and>
         (map_of (map_keys dataset_mapping d e) x = None \<longrightarrow> map_of out x = None)"
proof -
  from assms(1) obtain o3 o8 where
    a: "before_contributors loads d = Inr o3"
    and b: "out = strip_nulls (pop_keys dataset_keys_to_remove o8)"
    and c: "\<And>k. k \<notin> {''resources'', ''licenses'', ''license_id'', ''license_title'', ''license_url''}
            \<Longrightarrow> map_of o8 k = map_of (contributors_step o3) k"
    by (rule dataset_tail) blast
  from a assms(2) have t: "convert_tags d (map_keys dataset_mapping d e) = Inr o3"
    by (simp add: before_contributors_def bindE_def)
  have "map_of o8 x = map_of (contributors_step o3) x" using c assms(3) by simp
  also have "\<dots> = map_of o3 x" using assms(3) by (simp add: contributors_step_frame)
  also have "\<dots> = map_of (map_keys dataset_mapping d e) x"
    using t assms(3) by (auto dest: convert_tags_frame)
  finally have eq: "map_of o8 x = map_of (map_keys dataset_mapping d e) x" .
  have p: "map_of (pop_keys dataset_keys_to_remove o8) x = map_of o8 x"
    using assms(3) by (simp add: map_of_pop_keys dataset_keys_to_remove_def)
  show ?thesis
    unfolding b using eq p
    by (auto intro: map_of_strip_nulls_Some map_of_strip_nulls_None)
qed

lemma map_of_dataset_map_keys:
  "map_of (map_keys dataset_mapping d e) x =
     (if x = ''notes'' then (if has_key d ''notes'' then None else map_of e x)
      else if x = ''url'' then (if has_key d ''url'' then None else map_of e x)
      else if x = ''homepage'' \<and> has_key d ''url'' then map_of d ''url''
      else if x = ''description'' \<and> has_key d ''notes'' then map_of d ''notes''
      else map_of e x)"
  by (auto simp: dataset_mapping_def has_key_def delete_conv' update_conv' split: option.splits)

lemma dataset_contributors:
  assumes "before_contributors loads d = Inr o3"
    and "dataset loads d = Inr out"
    and "\<not> truthy (dict_get o3 ''contributors'')"
    and "has_key o3 ''author'' \<or> has_key o3 ''maintainer''"
  shows "map_of out ''contributors'' =
           Some (JArr (contributor o3 ''author'' ''author_email'' @
                       contributor o3 ''maintainer'' ''maintainer_email''))"
    (is "_ = Some ?c")
proof -
  from assms(2) obtain o3' o8 where
    a: "before_contributors loads d = Inr o3'"
    and b: "out = strip_nulls (pop_keys dataset_keys_to_remove o8)"
    and c: "\<And>k. k \<notin> {''resources'', ''licenses'', ''license_id'', ''license_title'', ''license_url''}
            \<Longrightarrow> map_of o8 k = map_of (contributors_step o3') k"
    by (rule dataset_tail) blast
  from a assms(1) have [simp]: "o3' = o3" by simp
  have "map_of o8 ''contributors'' = Some ?c"
    using c [of "''contributors''"] contributors_step_contributors [OF assms(3,4)] by simp
  then have "map_of (pop_keys dataset_keys_to_remove o8) ''contributors'' = Some ?c"
    by (simp add: map_of_pop_keys dataset_keys_to_remove_def del: pop_keys.simps)
  then show ?thesis unfolding b by (rule map_of_strip_nulls_Some) simp
qed

lemma dataset_popped:
  assumes "dataset loads d = Inr out"
    and "k \<in> set [''author'', ''author_email'', ''maintainer'', ''maintainer_email'']"
  shows "\<not> has_key out k"
proof -
  from assms(1) obtain o3 o8 where
    b: "out = strip_nulls (pop_keys dataset_keys_to_remove o8)"
    and c: "\<And>k. k \<notin> {''resources'', ''licenses'', ''license_id'', ''license_title'', ''license_url''}
            \<Longrightarrow> map_of o8 k = map_of (contributors_step o3) k"
    by (rule dataset_tail) blast
  have "map_of (contributors_step o3) k = None"
    using assms(2) by (intro contributors_step_popped) simp
  moreover have "map_of o8 k = map_of (contributors_step o3) k"
    using assms(2) by (intro c) auto
  ultimately have "map_of (pop_keys dataset_keys_to_remove o8) k = None"
    by (simp add: map_of_pop_keys del: pop_keys.simps)
  then show ?thesis unfolding b has_key_def by (simp add: map_of_strip_nulls_None)
qed

subsection \<open>Lookup after the steps of \<open>resource\<close>\<close>

lemma map_of_remove_keys:
  "map_of (remove_keys ks d) x = (if x \<in> set ks then None else map_of d x)"
  by (induction ks arbitrary: d) (auto simp: delete_conv' has_key_def)

lemma map_of_unjsonify:
  "map_of (unjsonify loads d) x = map_option (unjsonify_value loads) (map_of d x)"
  by (induction d) (auto simp: unjsonify_def)

lemma unjsonify_value_str:
  "starts_with (strip s) ''{'' \<or> starts_with (strip s) ''['' \<Longrightarrow>
   unjsonify_value loads (JStr s) = (case loads (strip s) of Some p \<Rightarrow> p | None \<Rightarrow> JStr s)"
  by (simp add: unjsonify_value_def Let_def)

lemma remap3: "remap [e1, e2, e3] d = remap [e3] (remap [e2] (remap [e1] d))"
  by simp

lemma map_of_remap1:
  "map_of (remap [(a, b)] d) x =
     (if has_key d a
      then (if x = a then None else if x = b then map_of d a else map_of d x)
      else map_of d x)"
  by (auto simp: has_key_def delete_conv' update_conv' split: option.splits)

lemma has_key_remap1:
  "has_key (remap [(a, b)] d) x =
     (if has_key d a then x \<noteq> a \<and> (x = b \<or> has_key d x) else has_key d x)"
  by (auto simp: has_key_def map_of_remap1 simp del: remap.simps)

lemma map_of_resource_remap:
  "map_of (remap resource_mapping d) x =
     (if x = ''size'' \<or> x = ''mimetype'' \<or> x = ''url'' then None
      else if x = ''bytes'' \<and> has_key d ''size'' then map_of d ''size''
      else if x = ''mediatype'' \<and> has_key d ''mimetype'' then map_of d ''mimetype''
      else if x = ''path'' \<and> has_key d ''url'' then map_of d ''url''
      else map_of d x)"
  unfolding resource_mapping_def remap3
  by (simp add: map_of_remap1 has_key_remap1 del: remap.simps) (simp add: has_key_def)

lemma remap_keeps:
  assumes "map_of d k = Some v"
    and "\<forall>a. (a, k) \<in> set resource_mapping \<longrightarrow> \<not> has_key d a"
  shows "map_of (remap resource_mapping d)
           (case map_of resource_mapping k of Some k' \<Rightarrow> k' | None \<Rightarrow> k) = Some v"
proof -
  from assms(2) have a: "k = ''bytes'' \<longrightarrow> \<not> has_key d ''size''"
    "k = ''mediatype'' \<longrightarrow> \<not> has_key d ''mimetype''"
    "k = ''path'' \<longrightarrow> \<not> has_key d ''url''"
    by (simp_all add: resource_mapping_def)
  from assms(1) have h: "has_key d k" by (simp add: has_key_def)
  show ?thesis
    using assms(1) a h
    by (simp only: map_of_resource_remap) (auto simp: resource_mapping_def)
qed

subsection \<open>Lookup after the steps of \<open>package\<close>\<close>

lemma delete_absent: "map_of d k = None \<Longrightarrow> AList.delete k d = d"
  by (simp add: map_of_eq_None_iff)

lemma pop_keys_absent: "(\<And>k. k \<in> set ks \<Longrightarrow> map_of d k = None) \<Longrightarrow> pop_keys ks d = d"
  by (induction ks) (simp_all add: delete_absent)






















subsection \<open>Unrecognised keys of a package\<close>

text \<open>
  C2. The claim: every key of the output of \<open>package\<close> that is outside
  \<open>ckan_package_keys\<close> appears as an extras entry, and an extras entry
  \<^verbatim>\<open>{key: custom, value: hello}\<close> survives \<open>dataset\<close> followed by \<open>package\<close>.
  The code never consults \<open>ckan_package_keys\<close>: the key \<^verbatim>\<open>newkey\<close> of the test
  \<^verbatim>\<open>test_extras_is_converted\<close> stays at the top level and no \<^verbatim>\<open>extras\<close> key is made,
  and the extras entry \<^verbatim>\<open>custom\<close> comes back as a top-level key.
\<close>

theorem package_keeps_unrecognised_keys_top_level:
  "package sample_slugify [(''title'', JStr ''Title here''), (''newkey'', JStr ''new value'')]
     = Inr [(''title'', JStr ''Title here''), (''newkey'', JStr ''new value'')]
   \<and> bindE (dataset sample_loads
               [(''extras'', JArr [JObj [(''key'', JStr ''custom''), (''value'', JStr ''hello'')]])])
            (package sample_slugify)
     = Inr [(''custom'', JStr ''hello'')]"
  by code_simp

subsection \<open>Malformed JSON in the licenses entry of extras\<close>

text \<open>
  C4. The claim: \<open>dataset\<close> returns for every record, also when the extras entry
  \<^verbatim>\<open>licenses\<close> holds malformed JSON. The second pass over the extras (line 182) calls
  \<^verbatim>\<open>json.loads\<close> outside any \<^verbatim>\<open>try\<close>: on the record below \<open>dataset\<close> raises
  \<^verbatim>\<open>JSONDecodeError\<close>.
\<close>

theorem dataset_malformed_licenses_raises:
  "dataset sample_loads
     [(''extras'', JArr [JObj [(''key'', JStr ''licenses''), (''value'', JStr ''{bad'')]])]
   = Inl JSONDecodeError"
  by code_simp

subsection \<open>A single contributor with a role and extras already there\<close>

text \<open>
  C5. The claim: a single contributor that carries \<^verbatim>\<open>path\<close>, \<^verbatim>\<open>organisation\<close> or
  \<^verbatim>\<open>role\<close> is appended to the extras. In the code the \<^verbatim>\<open>append\<close> stands inside
  \<^verbatim>\<open>if not outdict.get('extras')\<close>: when the record already has a non-empty extras
  list, nothing is appended and the contributor's role is lost.
\<close>

theorem package_single_contributor_not_archived:
  "package sample_slugify
     [(''extras'', JArr [JObj [(''key'', JStr ''k''), (''value'', JStr ''v'')]]),
      (''contributors'', JArr [JObj [(''title'', JStr ''T''), (''role'', JStr ''author'')]])]
   = Inr [(''extras'', JArr [JObj [(''key'', JStr ''k''), (''value'', JStr ''v'')]]),
          (''maintainer'', JStr ''T'')]"
  by code_simp

subsection \<open>Null values\<close>




subsection \<open>Contributors from author and maintainer\<close>

text \<open>
  C8. For a record without a non-empty \<^verbatim>\<open>contributors\<close> field (as it stands at line
  121, with the extras expanded): the record \<^verbatim>\<open>{author: A, author_email: a@x.com}\<close>
  gives one contributor with title, role and email; when author and maintainer are
  both non-empty the author's entry comes first; and none of \<^verbatim>\<open>author\<close>,
  \<^verbatim>\<open>author_email\<close>, \<^verbatim>\<open>maintainer\<close>, \<^verbatim>\<open>maintainer_email\<close> is a key of any record that
  \<open>dataset\<close> returns.
\<close>

theorem dataset_contributors_from_author_maintainer:
  "dataset loads [(''author'', JStr ''A''), (''author_email'', JStr ''a@x.com'')] =
     Inr [(''contributors'',
           JArr [JObj [(''title'', JStr ''A''), (''role'', JStr ''author''),
                       (''email'', JStr ''a@x.com'')]])] \<and>
   (before_contributors loads d = Inr o3 \<and> dataset loads d = Inr out \<and>
    \<not> truthy (dict_get o3 ''contributors'') \<and>
    truthy (dict_get o3 ''author'') \<and> truthy (dict_get o3 ''maintainer'') \<longrightarrow>
      map_of out ''contributors'' =
        Some (JArr [JObj ([(''title'', dict_get o3 ''author''), (''role'', JStr ''author'')] @
                          (if has_key o3 ''author_email''
                           then [(''email'', dict_get o3 ''author_email'')] else [])),
                    JObj ([(''title'', dict_get o3 ''maintainer''),
                           (''role'', JStr ''maintainer'')] @
                          (if has_key o3 ''maintainer_email''
                           then [(''email'', dict_get o3 ''maintainer_email'')] else []))])) \<and>
   (dataset loads d = Inr out \<and>
    k \<in> set [''author'', ''author_email'', ''maintainer'', ''maintainer_email''] \<longrightarrow>
      \<not> has_key out k)"
proof (intro conjI impI)
  show "dataset loads [(''author'', JStr ''A''), (''author_email'', JStr ''a@x.com'')] =
     Inr [(''contributors'',
           JArr [JObj [(''title'', JStr ''A''), (''role'', JStr ''author''),
                       (''email'', JStr ''a@x.com'')]])]"
    by code_simp
next
  assume h: "before_contributors loads d = Inr o3 \<and> dataset loads d = Inr out \<and>
    \<not> truthy (dict_get o3 ''contributors'') \<and>
    truthy (dict_get o3 ''author'') \<and> truthy (dict_get o3 ''maintainer'')"
  then have a: "has_key o3 ''author''" and m: "has_key o3 ''maintainer''"
    by (simp_all add: truthy_has_key)
  from h a have "map_of out ''contributors'' =
           Some (JArr (contributor o3 ''author'' ''author_email'' @
                       contributor o3 ''maintainer'' ''maintainer_email''))"
    by (intro dataset_contributors [of loads d]) simp_all
  with h a m show "map_of out ''contributors'' =
        Some (JArr [JObj ([(''title'', dict_get o3 ''author''), (''role'', JStr ''author'')] @
                          (if has_key o3 ''author_email''
                           then [(''email'', dict_get o3 ''author_email'')] else [])),
                    JObj ([(''title'', dict_get o3 ''maintainer''),
                           (''role'', JStr ''maintainer'')] @
                          (if has_key o3 ''maintainer_email''
                           then [(''email'', dict_get o3 ''maintainer_email'')] else []))])"
    by (simp add: contributor_def)
next
  assume "dataset loads d = Inr out \<and>
    k \<in> set [''author'', ''author_email'', ''maintainer'', ''maintainer_email'']"
  then show "\<not> has_key out k" using dataset_popped [of loads d out k] by blast
qed

theorem dataset_contributors_from_author_maintainer_witness:
  "before_contributors sample_loads
     [(''author'', JStr ''A''), (''author_email'', JStr ''a@x.com''), (''maintainer'', JStr ''M'')]
     = Inr [(''author'', JStr ''A''), (''author_email'', JStr ''a@x.com''),
            (''maintainer'', JStr ''M'')] \<and>
   dataset sample_loads
     [(''author'', JStr ''A''), (''author_email'', JStr ''a@x.com''), (''maintainer'', JStr ''M'')]
     = Inr [(''contributors'',
             JArr [JObj [(''title'', JStr ''A''), (''role'', JStr ''author''),
                         (''email'', JStr ''a@x.com'')],
                   JObj [(''title'', JStr ''M''), (''role'', JStr ''maintainer'')]])] \<and>
   map_of [(''contributors'',
             JArr [JObj [(''title'', JStr ''A''), (''role'', JStr ''author''),
                         (''email'', JStr ''a@x.com'')],
                   JObj [(''title'', JStr ''M''), (''role'', JStr ''maintainer'')]])]
     ''contributors''
     = Some (JArr [JObj [(''title'', JStr ''A''), (''role'', JStr ''author''),
                         (''email'', JStr ''a@x.com'')],
                   JObj [(''title'', JStr ''M''), (''role'', JStr ''maintainer'')]]) \<and>
   \<not> has_key [(''contributors'',
             JArr [JObj [(''title'', JStr ''A''), (''role'', JStr ''author''),
                         (''email'', JStr ''a@x.com'')],
                   JObj [(''title'', JStr ''M''), (''role'', JStr ''maintainer'')]])] ''author''"
  (is "?b = Inr ?d \<and> ?ds = Inr ?out \<and> ?m = Some ?c \<and> _")
proof -
  have h1: "?b = Inr ?d" by code_simp
  have h2: "?ds = Inr ?out" by code_simp
  have h3: "\<not> truthy (dict_get ?d ''contributors'')" by code_simp
  have h4: "truthy (dict_get ?d ''author'')" by code_simp
  have h5: "truthy (dict_get ?d ''maintainer'')" by code_simp
  have h6: "''author'' \<in> set [''author'', ''author_email'', ''maintainer'', ''maintainer_email'']"
    by simp
  have e: "JArr [JObj ([(''title'', dict_get ?d ''author''), (''role'', JStr ''author'')] @
                          (if has_key ?d ''author_email''
                           then [(''email'', dict_get ?d ''author_email'')] else [])),
                    JObj ([(''title'', dict_get ?d ''maintainer''),
                           (''role'', JStr ''maintainer'')] @
                          (if has_key ?d ''maintainer_email''
                           then [(''email'', dict_get ?d ''maintainer_email'')] else []))] = ?c"
    by code_simp
  note t = dataset_contributors_from_author_maintainer [of sample_loads ?d ?d ?out "''author''"]
  from t h1 h2 h3 h4 h5 have "?m = Some ?c" unfolding e by blast
  moreover from t h2 h6 have "\<not> has_key ?out ''author''" by blast
  ultimately show ?thesis using h1 h2 by blast
qed

subsection \<open>Empty author or maintainer\<close>

text \<open>
  C9. When the record (as it stands at line 121) has no non-empty \<^verbatim>\<open>contributors\<close>
  field and has an \<^verbatim>\<open>author\<close> or \<^verbatim>\<open>maintainer\<close> key, both empty or absent, the record
  that \<open>dataset\<close> returns has the key \<^verbatim>\<open>contributors\<close> with the empty list as value.
\<close>

theorem dataset_empty_author_empty_contributors:
  assumes "before_contributors loads d = Inr o3"
    and "dataset loads d = Inr out"
    and "has_key o3 ''author'' \<or> has_key o3 ''maintainer''"
    and "\<not> truthy (dict_get o3 ''author'')"
    and "\<not> truthy (dict_get o3 ''maintainer'')"
    and "\<not> truthy (dict_get o3 ''contributors'')"
  shows "map_of out ''contributors'' = Some (JArr [])"
  using dataset_contributors [OF assms(1,2,6,3)] assms(4,5)
  by (simp add: contributor_def)

theorem dataset_empty_author_empty_contributors_witness:
  "before_contributors sample_loads [(''author'', JStr [])] = Inr [(''author'', JStr [])] \<and>
   dataset sample_loads [(''author'', JStr [])] = Inr [(''contributors'', JArr [])] \<and>
   has_key [(''author'', JStr [])] ''author'' \<and>
   \<not> truthy (dict_get [(''author'', JStr [])] ''author'') \<and>
   map_of [(''contributors'', JArr [])] ''contributors'' = Some (JArr [])"
proof -
  have h1: "before_contributors sample_loads [(''author'', JStr [])]
              = Inr [(''author'', JStr [])]"
    by code_simp
  have h2: "dataset sample_loads [(''author'', JStr [])] = Inr [(''contributors'', JArr [])]"
    by code_simp
  have h3: "has_key [(''author'', JStr [])] ''author''" by code_simp
  have h4: "\<not> truthy (dict_get [(''author'', JStr [])] ''author'')" by code_simp
  have h5: "\<not> truthy (dict_get [(''author'', JStr [])] ''maintainer'')" by code_simp
  have h6: "\<not> truthy (dict_get [(''author'', JStr [])] ''contributors'')" by code_simp
  from dataset_empty_author_empty_contributors [OF h1 h2 disjI1 [OF h3] h4 h5 h6] h1 h2 h3 h4
  show ?thesis by blast
qed

subsection \<open>The rename of notes and url\<close>

text \<open>
  C10. Let \<open>(k, k')\<close> be an entry of \<open>dataset_mapping\<close> (\<^verbatim>\<open>notes\<close> to
  \<^verbatim>\<open>description\<close>, \<^verbatim>\<open>url\<close> to \<^verbatim>\<open>homepage\<close>), \<open>e\<close> the record after the extras are
  expanded and \<open>out\<close> the record \<open>dataset\<close> returns. If \<open>k\<close> is a top-level key of
  the input, \<open>k\<close> is no key of \<open>out\<close> (an extras value for \<open>k\<close> is dropped) and
  \<open>k'\<close> holds the input's top-level value, unless it is null. If \<open>k\<close> is no top-level
  key of the input, \<open>k\<close> and \<open>k'\<close> are in \<open>out\<close> what they are in \<open>e\<close> (nulls
  removed): a \<^verbatim>\<open>notes\<close> that comes from the extras stays \<^verbatim>\<open>notes\<close>.
\<close>

theorem dataset_rename_reads_input_keys:
  assumes "(k, k') \<in> set dataset_mapping"
    and "expand_extras loads d d = Inr e"
    and "dataset loads d = Inr out"
  shows "(has_key d k \<longrightarrow>
            \<not> has_key out k \<and> (dict_get d k \<noteq> JNull \<longrightarrow> map_of out k' = map_of d k)) \<and>
         (\<not> has_key d k \<longrightarrow>
            (\<forall>v. map_of e k = Some v \<and> v \<noteq> JNull \<longrightarrow> map_of out k = Some v) \<and>
            (map_of e k = None \<longrightarrow> \<not> has_key out k) \<and>
            (\<forall>w. map_of e k' = Some w \<and> w \<noteq> JNull \<longrightarrow> map_of out k' = Some w) \<and>
            (map_of e k' = None \<longrightarrow> \<not> has_key out k'))"
proof -
  from assms(1) consider "k = ''notes''" "k' = ''description''" | "k = ''url''" "k' = ''homepage''"
    by (auto simp: dataset_mapping_def)
  then show ?thesis
  proof cases
    case 1
    note p1 = dataset_passes [OF assms(3) assms(2), of "''notes''"]
    note p2 = dataset_passes [OF assms(3) assms(2), of "''description''"]
    show ?thesis
      using p1 p2 unfolding 1
      by (auto simp: map_of_dataset_map_keys has_key_def dict_get_def split: option.splits)
  next
    case 2
    note p1 = dataset_passes [OF assms(3) assms(2), of "''url''"]
    note p2 = dataset_passes [OF assms(3) assms(2), of "''homepage''"]
    show ?thesis
      using p1 p2 unfolding 2
      by (auto simp: map_of_dataset_map_keys has_key_def dict_get_def split: option.splits)
  qed
qed

theorem dataset_rename_reads_input_keys_witness:
  "(''notes'', ''description'') \<in> set dataset_mapping \<and>
   (''url'', ''homepage'') \<in> set dataset_mapping \<and>
   expand_extras sample_loads
     [(''notes'', JStr ''top''),
      (''extras'', JArr [JObj [(''key'', JStr ''notes''), (''value'', JStr ''hello'')],
                         JObj [(''key'', JStr ''url''), (''value'', JStr ''v'')]])]
     [(''notes'', JStr ''top''),
      (''extras'', JArr [JObj [(''key'', JStr ''notes''), (''value'', JStr ''hello'')],
                         JObj [(''key'', JStr ''url''), (''value'', JStr ''v'')]])]
     = Inr [(''notes'', JStr ''hello''), (''url'', JStr ''v'')] \<and>
   dataset sample_loads
     [(''notes'', JStr ''top''),
      (''extras'', JArr [JObj [(''key'', JStr ''notes''), (''value'', JStr ''hello'')],
                         JObj [(''key'', JStr ''url''), (''value'', JStr ''v'')]])]
     = Inr [(''url'', JStr ''v''), (''description'', JStr ''top'')] \<and>
   \<not> has_key [(''url'', JStr ''v''), (''description'', JStr ''top'')] ''notes'' \<and>
   map_of [(''url'', JStr ''v''), (''description'', JStr ''top'')] ''description''
     = Some (JStr ''top'') \<and>
   map_of [(''url'', JStr ''v''), (''description'', JStr ''top'')] ''url'' = Some (JStr ''v'')"
  (is "?m1 \<and> ?m2 \<and> expand_extras sample_loads ?d ?d = Inr ?e \<and> _ = Inr ?out \<and> _")
proof -
  have m1: ?m1 and m2: ?m2 by (simp_all add: dataset_mapping_def)
  have h1: "expand_extras sample_loads ?d ?d = Inr ?e" by code_simp
  have h2: "dataset sample_loads ?d = Inr ?out" by code_simp
  have k1: "has_key ?d ''notes''" by code_simp
  have v1: "dict_get ?d ''notes'' \<noteq> JNull" by code_simp
  have v2: "map_of ?d ''notes'' = Some (JStr ''top'')" by code_simp
  have k2: "\<not> has_key ?d ''url''" by code_simp
  have v3: "map_of ?e ''url'' = Some (JStr ''v'') \<and> JStr ''v'' \<noteq> JNull" by code_simp
  from dataset_rename_reads_input_keys [OF m1 h1 h2] k1 v1 v2
  have a: "\<not> has_key ?out ''notes'' \<and> map_of ?out ''description'' = Some (JStr ''top'')"
    by simp
  from dataset_rename_reads_input_keys [OF m2 h1 h2] k2 v3
  have b: "map_of ?out ''url'' = Some (JStr ''v'')" by blast
  from m1 m2 h1 h2 a b show ?thesis by blast
qed

subsection \<open>Strings that look like JSON in a resource\<close>

text \<open>
  C7. The claim: for every key that survives the removal of the bookkeeping keys and
  whose value is a string that, stripped, begins with a brace or a bracket, the output
  carries the parsed value, or the original string when it does not parse. The
  rename that follows overwrites \<^verbatim>\<open>path\<close> with the value of \<^verbatim>\<open>url\<close> when both are
  present (likewise \<^verbatim>\<open>bytes\<close> and \<^verbatim>\<open>mediatype\<close>): below, the string \<^verbatim>\<open>{bad\<close> under
  \<^verbatim>\<open>path\<close> does not parse and is not in the output.
\<close>

theorem resource_rename_overwrites_unparsed_string:
  "''path'' \<notin> set resource_keys_to_remove \<and>
   map_of [(''url'', JStr ''[1]''), (''path'', JStr ''{bad'')] ''path'' = Some (JStr ''{bad'') \<and>
   starts_with (strip ''{bad'') ''{'' \<and>
   sample_loads (strip ''{bad'') = None \<and>
   resource sample_loads [(''url'', JStr ''[1]''), (''path'', JStr ''{bad'')]
     = [(''path'', JArr [JInt 1])]"
  by code_simp

text \<open>
  C7, as amended: let \<open>k\<close> be a key of the resource record \<open>r\<close> outside
  \<open>resource_keys_to_remove\<close> whose value is a string \<open>s\<close> that, stripped, begins
  with a brace or a bracket, and let no key that \<open>resource_mapping\<close> renames to
  \<open>k\<close> be present in \<open>r\<close>. Then, under the name \<open>resource_mapping\<close> gives \<open>k\<close>
  (\<open>k\<close> itself when it gives none), the output holds the parsed value when
  \<open>strip s\<close> parses (to something other than null), and the original string \<open>s\<close>,
  not the stripped one, when it does not. \<open>resource\<close> is a total function: it
  returns in both cases.
\<close>

theorem resource_unjsonify:
  assumes "k \<notin> set resource_keys_to_remove"
    and "map_of r k = Some (JStr s)"
    and "starts_with (strip s) ''{'' \<or> starts_with (strip s) ''[''"
    and "\<forall>a. (a, k) \<in> set resource_mapping \<longrightarrow> \<not> has_key r a"
  shows "(\<forall>p. loads (strip s) = Some p \<and> p \<noteq> JNull \<longrightarrow>
            map_of (resource loads r)
              (case map_of resource_mapping k of Some k' \<Rightarrow> k' | None \<Rightarrow> k) = Some p) \<and>
         (loads (strip s) = None \<longrightarrow>
            map_of (resource loads r)
              (case map_of resource_mapping k of Some k' \<Rightarrow> k' | None \<Rightarrow> k) = Some (JStr s))"
proof -
  define r2 where "r2 = unjsonify loads (remove_keys resource_keys_to_remove r)"
  define k' where "k' = (case map_of resource_mapping k of Some k' \<Rightarrow> k' | None \<Rightarrow> k)"
  define v where "v = (case loads (strip s) of Some p \<Rightarrow> p | None \<Rightarrow> JStr s)"
  have r2: "map_of r2 x = (if x \<in> set resource_keys_to_remove then None
                            else map_option (unjsonify_value loads) (map_of r x))" for x
    by (simp add: r2_def map_of_unjsonify map_of_remove_keys)
  have k2: "map_of r2 k = Some v"
    using assms(1,2,3) by (simp add: r2 v_def unjsonify_value_str)
  have absent: "\<forall>a. (a, k) \<in> set resource_mapping \<longrightarrow> \<not> has_key r2 a"
    using assms(4) by (auto simp: has_key_def r2)
  have "map_of (remap resource_mapping r2) k' = Some v"
    unfolding k'_def using k2 absent by (rule remap_keeps)
  then have "v \<noteq> JNull \<Longrightarrow> map_of (resource loads r) k' = Some v"
    unfolding resource_def r2_def by (rule map_of_strip_nulls_Some)
  then show ?thesis
    unfolding k'_def [symmetric] by (cases "loads (strip s)") (simp_all add: v_def)
qed

theorem resource_unjsonify_witness:
  "''schema'' \<notin> set resource_keys_to_remove \<and>
   starts_with (strip '' [1] '') ''['' \<and>
   sample_loads (strip '' [1] '') = Some (JArr [JInt 1]) \<and>
   map_of (resource sample_loads
             [(''schema'', JStr '' [1] ''), (''x'', JStr '' {bad''), (''url'', JStr ''{}'')])
     ''schema'' = Some (JArr [JInt 1]) \<and>
   starts_with (strip '' {bad'') ''{'' \<and>
   sample_loads (strip '' {bad'') = None \<and>
   map_of (resource sample_loads
             [(''schema'', JStr '' [1] ''), (''x'', JStr '' {bad''), (''url'', JStr ''{}'')])
     ''x'' = Some (JStr '' {bad'') \<and>
   map_of (resource sample_loads
             [(''schema'', JStr '' [1] ''), (''x'', JStr '' {bad''), (''url'', JStr ''{}'')])
     ''path'' = Some (JObj [])"
  (is "?a1 \<and> ?a2 \<and> ?a3 \<and> map_of (resource sample_loads ?r) _ = _ \<and> ?b1 \<and> ?b2 \<and> _")
proof -
  have a1: ?a1 and a2: ?a2 and a3: ?a3 and b1: ?b1 and b2: ?b2 by code_simp+
  have c1: "''x'' \<notin> set resource_keys_to_remove" "''url'' \<notin> set resource_keys_to_remove"
    by code_simp+
  have c2: "starts_with (strip ''{}'') ''{''" "sample_loads (strip ''{}'') = Some (JObj [])"
    by code_simp+
  have m: "map_of ?r ''schema'' = Some (JStr '' [1] '')"
    "map_of ?r ''x'' = Some (JStr '' {bad'')" "map_of ?r ''url'' = Some (JStr ''{}'')"
    by simp_all
  have n: "\<forall>a. (a, ''schema'') \<in> set resource_mapping \<longrightarrow> \<not> has_key ?r a"
    "\<forall>a. (a, ''x'') \<in> set resource_mapping \<longrightarrow> \<not> has_key ?r a"
    "\<forall>a. (a, ''url'') \<in> set resource_mapping \<longrightarrow> \<not> has_key ?r a"
    by (simp_all add: resource_mapping_def)
  have k: "(case map_of resource_mapping ''schema'' of Some k' \<Rightarrow> k' | None \<Rightarrow> ''schema'')
             = ''schema''"
    "(case map_of resource_mapping ''x'' of Some k' \<Rightarrow> k' | None \<Rightarrow> ''x'') = ''x''"
    "(case map_of resource_mapping ''url'' of Some k' \<Rightarrow> k' | None \<Rightarrow> ''url'') = ''path''"
    by (simp_all add: resource_mapping_def)
  from resource_unjsonify [OF a1 m(1) disjI2 [OF a2] n(1), of sample_loads] a3
  have r1: "map_of (resource sample_loads ?r) ''schema'' = Some (JArr [JInt 1])"
    unfolding k by simp
  from resource_unjsonify [OF c1(1) m(2) disjI1 [OF b1] n(2), of sample_loads] b2
  have r2: "map_of (resource sample_loads ?r) ''x'' = Some (JStr '' {bad'')"
    unfolding k by simp
  from resource_unjsonify [OF c1(2) m(3) disjI1 [OF c2(1)] n(3), of sample_loads] c2(2)
  have r3: "map_of (resource sample_loads ?r) ''path'' = Some (JObj [])"
    unfolding k by simp
  from a1 a2 a3 b1 b2 r1 r2 r3 show ?thesis by blast
qed

subsection \<open>Catalog to package and back\<close>




subsection \<open>The caller's record after \<^verbatim>\<open>package\<close>\<close>

text \<open>
  C6. The claim: every converter leaves its input record unchanged, nested lists
  included; in particular \<open>package\<close> does not change a non-empty \<^verbatim>\<open>extras\<close> list of
  its input when it archives overflow contributors. The store below holds the record
  \<^verbatim>\<open>{extras: [{key: k, value: v}], contributors: [{title: A}, {title: B}]}\<close> at
  address 0 and its \<^verbatim>\<open>extras\<close> list at address 1. The call returns the new
  dictionary at address 6, equal to what the value model computes, and the list at
  address 1, which the new dictionary shares with the input, has grown by the archived
  entry: read after the call, the caller's record has two extras.
\<close>

theorem package_appends_to_the_callers_extras:
  "package_h sample_slugify 0
     [HDict [(''extras'', HRef 1), (''contributors'', HRef 3)],
      HList [HRef 2],
      HDict [(''key'', HStr ''k''), (''value'', HStr ''v'')],
      HList [HRef 4, HRef 5],
      HDict [(''title'', HStr ''A'')],
      HDict [(''title'', HStr ''B'')]]
   = Inr (6,
     [HDict [(''extras'', HRef 1), (''contributors'', HRef 3)],
      HList [HRef 2, HRef 7],
      HDict [(''key'', HStr ''k''), (''value'', HStr ''v'')],
      HList [HRef 4, HRef 5],
      HDict [(''title'', HStr ''A'')],
      HDict [(''title'', HStr ''B'')],
      HDict [(''extras'', HRef 1), (''maintainer'', HStr ''A'')],
      HDict [(''contributors'', HRef 3)]]) \<and>
   readback 5
     [HDict [(''extras'', HRef 1), (''contributors'', HRef 3)],
      HList [HRef 2],
      HDict [(''key'', HStr ''k''), (''value'', HStr ''v'')],
      HList [HRef 4, HRef 5],
      HDict [(''title'', HStr ''A'')],
      HDict [(''title'', HStr ''B'')]] (HRef 0)
   = JObj [(''extras'', JArr [JObj [(''key'', JStr ''k''), (''value'', JStr ''v'')]]),
           (''contributors'', JArr [JObj [(''title'', JStr ''A'')],
                                    JObj [(''title'', JStr ''B'')]])] \<and>
   readback 5
     [HDict [(''extras'', HRef 1), (''contributors'', HRef 3)],
      HList [HRef 2, HRef 7],
      HDict [(''key'', HStr ''k''), (''value'', HStr ''v'')],
      HList [HRef 4, HRef 5],
      HDict [(''title'', HStr ''A'')],
      HDict [(''title'', HStr ''B'')],
      HDict [(''extras'', HRef 1), (''maintainer'', HStr ''A'')],
      HDict [(''contributors'', HRef 3)]] (HRef 0)
   = JObj [(''extras'',
            JArr [JObj [(''key'', JStr ''k''), (''value'', JStr ''v'')],
                  JObj [(''contributors'', JArr [JObj [(''title'', JStr ''A'')],
                                                 JObj [(''title'', JStr ''B'')]])]]),
           (''contributors'', JArr [JObj [(''title'', JStr ''A'')],
                                    JObj [(''title'', JStr ''B'')]])] \<and>
   package sample_slugify
     [(''extras'', JArr [JObj [(''key'', JStr ''k''), (''value'', JStr ''v'')]]),
      (''contributors'', JArr [JObj [(''title'', JStr ''A'')], JObj [(''title'', JStr ''B'')]])]
   = Inr [(''extras'',
           JArr [JObj [(''key'', JStr ''k''), (''value'', JStr ''v'')],
                 JObj [(''contributors'', JArr [JObj [(''title'', JStr ''A'')],
                                                JObj [(''title'', JStr ''B'')]])]]),
          (''maintainer'', JStr ''A'')] \<and>
   readback 5
     [HDict [(''extras'', HRef 1), (''contributors'', HRef 3)],
      HList [HRef 2, HRef 7],
      HDict [(''key'', HStr ''k''), (''value'', HStr ''v'')],
      HList [HRef 4, HRef 5],
      HDict [(''title'', HStr ''A'')],
      HDict [(''title'', HStr ''B'')],
      HDict [(''extras'', HRef 1), (''maintainer'', HStr ''A'')],
      HDict [(''contributors'', HRef 3)]] (HRef 6)
   = JObj [(''extras'',
            JArr [JObj [(''key'', JStr ''k''), (''value'', JStr ''v'')],
                  JObj [(''contributors'', JArr [JObj [(''title'', JStr ''A'')],
                                                 JObj [(''title'', JStr ''B'')]])]]),
           (''maintainer'', JStr ''A'')]"
  by code_simp

end
